theory Spec2Isabelle
  imports Main "HOL-Library.AList"
begin

section \<open>The gateway of \<^verbatim>\<open>src/memory-leak.gateway.ts\<close>\<close>

text \<open>
  The class \<^verbatim>\<open>MemoryLeakGateway\<close> keeps three collections (\<^verbatim>\<open>userSessions\<close>,
  \<^verbatim>\<open>globalEventHandlers\<close>, \<^verbatim>\<open>messageHistory\<close>) and talks to three parts of the Node
  runtime: the timer table (\<^verbatim>\<open>setInterval\<close>, \<^verbatim>\<open>clearInterval\<close>), the sockets
  (\<^verbatim>\<open>client.on\<close>, \<^verbatim>\<open>client.emit\<close>) and the clock (\<^verbatim>\<open>Date.now()\<close>, \<^verbatim>\<open>new Date()\<close>).
  The model passes one state record through every handler: the fields of the class, the
  heap of session objects the map and the closures point to, and the runtime's side.
  Logging (\<^verbatim>\<open>this.logger\<close>, \<^verbatim>\<open>logMemoryUsage\<close>) changes none of these and is left
  out. Numbers are the integers among the JavaScript numbers. Memory is not modelled; the
  language's bound on the length of an array is, in \<^verbatim>\<open>handleHeavyComputation\<close>, for the two
  arrays it pushes to.
\<close>

subsection \<open>Values\<close>

type_synonym socket_id = string

text \<open>A \<^verbatim>\<open>NodeJS.Timeout\<close> handle: the number of the \<^verbatim>\<open>setInterval\<close> call that made it.\<close>
type_synonym timeout = nat

text \<open>The address of a \<^verbatim>\<open>UserSession\<close> object.\<close>
type_synonym ref = nat

text \<open>
  The closures of the source, each with what it captures:
  the constructor's timer body; \<^verbatim>\<open>heartbeatCallback\<close> (captures \<^verbatim>\<open>client\<close>);
  the body of \<^verbatim>\<open>connectionTimer\<close> (captures \<^verbatim>\<open>client\<close> and \<^verbatim>\<open>session\<close>);
  \<^verbatim>\<open>globalHandler\<close> (captures \<^verbatim>\<open>client\<close>); the body of \<^verbatim>\<open>updateInterval\<close>
  (captures \<^verbatim>\<open>data.userId\<close> and \<^verbatim>\<open>client\<close>).
\<close>
datatype callback =
    GlobalTimerBody
  | HeartbeatCallback socket_id
  | ConnectionTimerBody socket_id ref
  | GlobalHandler socket_id
  | UpdateIntervalBody string socket_id

text \<open>A \<^verbatim>\<open>Buffer\<close>, by its length and the byte it was filled with.\<close>
record Buffer =
  byteLength :: nat
  fillByte :: char

record UserSession =
  userId :: string
  socketId :: socket_id
  data :: Buffer
  timers :: "timeout list"
  intervals :: "timeout list"
  listeners :: "(string \<times> callback) list"

text \<open>An entry of \<^verbatim>\<open>messageHistory\<close>: \<^verbatim>\<open>{ timestamp, message, userId }\<close>.\<close>
record HistoryEntry =
  entry_timestamp :: int
  entry_message :: string
  entry_userId :: string

text \<open>One element of the \<^verbatim>\<open>updates\<close> array built by \<^verbatim>\<open>generateFakeUpdates\<close>;
  \<^verbatim>\<open>sessionData\<close> is the session object itself (its address), or \<^verbatim>\<open>undefined\<close>.\<close>
record UpdateItem =
  item_id :: nat
  item_message :: string
  sessionData :: "ref option"
  item_timestamp :: int

text \<open>\<^verbatim>\<open>process.memoryUsage()\<close>, in bytes.\<close>
record MemoryUsage =
  rss :: int
  heapUsed :: int
  heapTotal :: int
  external :: int

record Stats =
  memoryUsage :: MemoryUsage
  activeSessions :: nat
  messageHistoryLength :: nat
  globalHandlers :: nat

text \<open>What \<^verbatim>\<open>client.emit\<close> sends: the event name with its payload.\<close>
datatype event =
    heartbeat int
  | user_updates string "UpdateItem list"
  | computation_result (iteration: nat) (result_size: nat) (result_timestamp: int)
  | memory_stats Stats
  | gc_result int int int
  | gc_result_error string
  | global_broadcast

datatype error = TypeError | RangeError

text \<open>\<^verbatim>\<open>{ status: 'subscribed', userId }\<close> and \<^verbatim>\<open>{ processed }\<close>.\<close>
datatype subscribe_reply = Subscribed string
datatype heavy_reply = Processed nat

subsection \<open>State\<close>

record state =
  userSessions :: "(socket_id \<times> ref) list"
  globalEventHandlers :: "callback list"
  messageHistory :: "HistoryEntry list"
  globalTimer :: timeout
  objects :: "UserSession list"
  activeTimers :: "(timeout \<times> callback) list"
  timersCreated :: nat
  socketListeners :: "(socket_id \<times> string \<times> callback) list"
  emitted :: "(socket_id \<times> event) list"
  cleared :: "timeout list"
  clock :: "nat \<Rightarrow> int"
  clockReads :: nat

text \<open>
  \<^item> \<open>userSessions\<close> is the \<^verbatim>\<open>Map\<close>, in insertion order; a value is the address of a
    session object in \<open>objects\<close> (allocation appends, nothing is freed).
  \<^item> \<open>activeTimers\<close> holds the intervals that were set and not cleared;
    \<open>cleared\<close> is the trace of the \<^verbatim>\<open>clearInterval\<close> calls.
  \<^item> \<open>socketListeners\<close> holds the \<^verbatim>\<open>client.on\<close> registrations, \<open>emitted\<close> the trace of
    \<^verbatim>\<open>client.emit\<close>.
  \<^item> \<open>clock s k\<close> is what the \<open>k\<close>-th reading of the system clock returns.
\<close>

subsection \<open>Runtime primitives\<close>

definition Date_now :: "state \<Rightarrow> int \<times> state" where
  "Date_now s = (clock s (clockReads s), s\<lparr>clockReads := Suc (clockReads s)\<rparr>)"

definition setInterval :: "callback \<Rightarrow> state \<Rightarrow> timeout \<times> state" where
  "setInterval cb s =
     (timersCreated s,
      s\<lparr>activeTimers := activeTimers s @ [(timersCreated s, cb)],
        timersCreated := Suc (timersCreated s)\<rparr>)"

definition clearInterval :: "timeout \<Rightarrow> state \<Rightarrow> state" where
  "clearInterval t s =
     s\<lparr>activeTimers := filter (\<lambda>p. fst p \<noteq> t) (activeTimers s),
       cleared := cleared s @ [t]\<rparr>"

definition client_on :: "socket_id \<Rightarrow> string \<Rightarrow> callback \<Rightarrow> state \<Rightarrow> state" where
  "client_on client ev cb s = s\<lparr>socketListeners := socketListeners s @ [(client, ev, cb)]\<rparr>"

definition client_emit :: "socket_id \<Rightarrow> event \<Rightarrow> state \<Rightarrow> state" where
  "client_emit client e s = s\<lparr>emitted := emitted s @ [(client, e)]\<rparr>"

text \<open>A write to a field of the session object at address \<open>r\<close>.\<close>
definition modify_session :: "ref \<Rightarrow> (UserSession \<Rightarrow> UserSession) \<Rightarrow> state \<Rightarrow> state" where
  "modify_session r f s = s\<lparr>objects := (objects s)[r := f (objects s ! r)]\<rparr>"

text \<open>A non-negative integer in a template literal.\<close>
function decimal :: "nat \<Rightarrow> string" where
  "decimal n =
     (if n < 10 then [''0123456789'' ! n]
      else decimal (n div 10) @ [''0123456789'' ! (n mod 10)])"
  by pat_completeness auto
termination
  by (relation "measure id") auto

declare decimal.simps [simp del]

text \<open>\<^verbatim>\<open>Number.prototype.toString\<close> on an integer of magnitude below \<^verbatim>\<open>1e21\<close>, where it
  gives all the digits. From \<^verbatim>\<open>1e21\<close> on the source gives exponent notation, which this
  function does not render: no statement below depends on the rendering of such a number.\<close>
definition number_toString :: "int \<Rightarrow> string" where
  "number_toString i = (if i < 0 then CHR ''-'' # decimal (nat (- i)) else decimal (nat i))"

text \<open>\<^verbatim>\<open>Math.round(b / 1024 / 1024)\<close> for an integer \<open>b\<close>: the nearest integer, a tie upwards.\<close>
definition MB :: "int \<Rightarrow> int" where
  "MB b = (b + 524288) div 1048576"

text \<open>The greatest length of a JavaScript array, \<^verbatim>\<open>2^32 - 1\<close>: \<^verbatim>\<open>push\<close> on an array of that
  length throws a RangeError and leaves the length as it was.\<close>
definition max_array_length :: nat where
  "max_array_length = 4294967295"

subsection \<open>The constructor\<close>

definition constructor :: "(nat \<Rightarrow> int) \<Rightarrow> state" where
  "constructor clk =
     \<lparr>userSessions = [], globalEventHandlers = [], messageHistory = [], globalTimer = 0,
      objects = [], activeTimers = [(0, GlobalTimerBody)], timersCreated = 1,
      socketListeners = [], emitted = [], cleared = [], clock = clk, clockReads = 0\<rparr>"

subsection \<open>handleConnection\<close>

text \<open>\<^verbatim>\<open>`anonymous_${Date.now()}`\<close>\<close>
definition anonymous :: "state \<Rightarrow> string \<times> state" where
  "anonymous s = (let (now, s1) = Date_now s in (''anonymous_'' @ number_toString now, s1))"

text \<open>
  \<open>auth\<close> is \<^verbatim>\<open>client.handshake.auth?.userId\<close>: \<open>None\<close> when it is undefined. The empty
  string is falsy as well, so \<^verbatim>\<open>||\<close> takes the right-hand side for it too.
\<close>
definition handleConnection :: "socket_id \<Rightarrow> string option \<Rightarrow> state \<Rightarrow> state" where
  "handleConnection client auth s0 =
     (let largeBuffer = \<lparr>byteLength = 1024 * 1024, fillByte = CHR ''x''\<rparr>;
          (uid, s1) = (case auth of
                         None \<Rightarrow> anonymous s0
                       | Some u \<Rightarrow> if u = [] then anonymous s0 else (u, s0));
          session = length (objects s1);
          s2 = s1\<lparr>objects := objects s1 @
                 [\<lparr>userId = uid, socketId = client, data = largeBuffer,
                   timers = [], intervals = [], listeners = []\<rparr>]\<rparr>;
          s3 = s2\<lparr>userSessions := AList.update client session (userSessions s2)\<rparr>;
          heartbeatCallback = HeartbeatCallback client;
          s4 = client_on client ''pong'' heartbeatCallback s3;
          s5 = modify_session session
                 (\<lambda>obj. obj\<lparr>listeners := listeners obj @ [(''pong'', heartbeatCallback)]\<rparr>) s4;
          (connectionTimer, s6) = setInterval (ConnectionTimerBody client session) s5;
          s7 = modify_session session (\<lambda>obj. obj\<lparr>timers := timers obj @ [connectionTimer]\<rparr>) s6;
          globalHandler = GlobalHandler client
      in s7\<lparr>globalEventHandlers := globalEventHandlers s7 @ [globalHandler]\<rparr>)"

subsection \<open>handleDisconnect\<close>

definition handleDisconnect :: "socket_id \<Rightarrow> state \<Rightarrow> state" where
  "handleDisconnect client s =
     (case map_of (userSessions s) client of
        None \<Rightarrow> s
      | Some session \<Rightarrow>
          (case timers (objects s ! session) of
             [] \<Rightarrow> s
           | t # _ \<Rightarrow> clearInterval t s))"

subsection \<open>subscribe_updates\<close>

text \<open>\<open>None\<close> is the bare \<^verbatim>\<open>return;\<close> of the guard. \<^verbatim>\<open>data.preferences\<close> is never read.\<close>
definition handleSubscribeUpdates ::
  "string \<Rightarrow> socket_id \<Rightarrow> state \<Rightarrow> subscribe_reply option \<times> state" where
  "handleSubscribeUpdates data_userId client s =
     (case map_of (userSessions s) client of
        None \<Rightarrow> (None, s)
      | Some session \<Rightarrow>
          (let (updateInterval, s1) = setInterval (UpdateIntervalBody data_userId client) s
           in (Some (Subscribed data_userId), s1)))"

subsection \<open>heavy_computation\<close>

text \<open>
  \<^verbatim>\<open>results.forEach(fn => fn())\<close>: the closure made for \<open>i\<close> concatenates the 100 KiB
  buffer with \<^verbatim>\<open>`iteration_${i}`\<close> and emits the result's length with a clock reading.
\<close>
fun run_results :: "socket_id \<Rightarrow> nat list \<Rightarrow> state \<Rightarrow> state" where
  "run_results client [] s = s"
| "run_results client (i # rest) s =
     (let processed = 100 * 1024 + length (''iteration_'' @ decimal i);
          (now, s1) = Date_now s
      in run_results client rest (client_emit client (computation_result i processed now) s1))"

text \<open>
  \<open>iterations\<close> is \<^verbatim>\<open>data.iterations\<close>, \<open>None\<close> when the payload has no such field.
  \<^verbatim>\<open>data.iterations || 100\<close> takes 100 for \<open>undefined\<close> and for \<open>0\<close>. The loop runs while
  \<^verbatim>\<open>i < bound\<close>, so not at all for a negative bound, and it pushes every closure into
  \<^verbatim>\<open>results\<close> before the first one runs: for a bound above the greatest array length the
  push that would exceed it throws a RangeError, before anything is emitted. In the
  argument of the final \<^verbatim>\<open>push\<close>, \<^verbatim>\<open>new Date()\<close> is evaluated before
  \<^verbatim>\<open>data.iterations.toString()\<close>, which throws a TypeError on \<open>undefined\<close>; the push itself
  throws a RangeError when \<^verbatim>\<open>messageHistory\<close> already has the greatest array length. The
  function is \<^verbatim>\<open>async\<close> and awaits nothing: it runs to its end in one go, and a throw is a
  rejected promise.
\<close>
definition handleHeavyComputation ::
  "int option \<Rightarrow> socket_id \<Rightarrow> state \<Rightarrow> (error + heavy_reply) \<times> state" where
  "handleHeavyComputation iterations client s =
     (let bound = (case iterations of None \<Rightarrow> 100 | Some n \<Rightarrow> if n = 0 then 100 else n)
      in if int max_array_length < bound then (Inl RangeError, s)
         else
           (let results = [0 ..< nat bound];
                s1 = run_results client results s;
                (ts, s2) = Date_now s1
            in case iterations of
                 None \<Rightarrow> (Inl TypeError, s2)
               | Some n \<Rightarrow>
                   if length (messageHistory s2) < max_array_length
                   then (Inr (Processed (length results)),
                         s2\<lparr>messageHistory := messageHistory s2 @
                              [\<lparr>entry_timestamp = ts,
                                entry_message = ''Heavy computation completed: '' @
                                                decimal (length results) @ '' operations'',
                                entry_userId = number_toString n\<rparr>]\<rparr>)
                   else (Inl RangeError, s2)))"

subsection \<open>get_memory_stats and force_gc\<close>

definition roundMB :: "MemoryUsage \<Rightarrow> MemoryUsage" where
  "roundMB m = \<lparr>rss = MB (rss m), heapUsed = MB (heapUsed m),
                heapTotal = MB (heapTotal m), external = MB (external m)\<rparr>"

definition handleGetMemoryStats :: "MemoryUsage \<Rightarrow> socket_id \<Rightarrow> state \<Rightarrow> Stats \<times> state" where
  "handleGetMemoryStats memUsage client s =
     (let stats = \<lparr>memoryUsage = roundMB memUsage,
                   activeSessions = length (userSessions s),
                   messageHistoryLength = length (messageHistory s),
                   globalHandlers = length (globalEventHandlers s)\<rparr>
      in (stats, client_emit client (memory_stats stats) s))"

text \<open>\<open>gc\<close> is \<open>None\<close> when \<^verbatim>\<open>global.gc\<close> is not exposed, and otherwise the memory usage
  read before and after the collection.\<close>
definition handleForceGC ::
  "(MemoryUsage \<times> MemoryUsage) option \<Rightarrow> socket_id \<Rightarrow> state \<Rightarrow> state" where
  "handleForceGC gc client s =
     (case gc of
        Some (before, after) \<Rightarrow>
          client_emit client
            (gc_result (MB (heapUsed before)) (MB (heapUsed after))
               (MB (heapUsed before - heapUsed after))) s
      | None \<Rightarrow>
          client_emit client
            (gc_result_error ''GC not exposed. Start with --expose-gc flag'') s)"

subsection \<open>Timer bodies and listeners\<close>

text \<open>\<^verbatim>\<open>performHeavyOperation\<close> builds and drops 10000 items, each with a clock reading.\<close>
definition performHeavyOperation :: "state \<Rightarrow> state" where
  "performHeavyOperation s = s\<lparr>clockReads := clockReads s + 10000\<rparr>"

fun make_updates :: "string \<Rightarrow> ref option \<Rightarrow> nat list \<Rightarrow> state \<Rightarrow> UpdateItem list \<times> state" where
  "make_updates uid session [] s = ([], s)"
| "make_updates uid session (i # rest) s =
     (let (now, s1) = Date_now s;
          item = \<lparr>item_id = i,
                  item_message = ''Update '' @ decimal i @ '' for '' @ uid,
                  sessionData = session,
                  item_timestamp = now\<rparr>;
          (items, s2) = make_updates uid session rest s1
      in (item # items, s2))"

text \<open>\<^verbatim>\<open>Array.from(this.userSessions.values()).find(s => s.userId === userId)\<close> is the first
  session in insertion order with that user id.\<close>
definition generateFakeUpdates :: "string \<Rightarrow> state \<Rightarrow> (string \<times> UpdateItem list) \<times> state" where
  "generateFakeUpdates uid s =
     (let session = find (\<lambda>r. userId (objects s ! r) = uid) (map snd (userSessions s));
          (updates, s1) = make_updates uid session [0 ..< 50] s
      in ((uid, updates), s1))"

text \<open>\<^verbatim>\<open>messageHistory.slice(-5000)\<close>\<close>
definition slice_last :: "nat \<Rightarrow> 'a list \<Rightarrow> 'a list" where
  "slice_last k xs = drop (length xs - k) xs"

fun run_callback :: "callback \<Rightarrow> state \<Rightarrow> state" where
  "run_callback GlobalTimerBody s = performHeavyOperation s"
| "run_callback (HeartbeatCallback client) s =
     (let (now, s1) = Date_now s in client_emit client (heartbeat now) s1)"
| "run_callback (ConnectionTimerBody client session) s =
     (let (ts, s1) = Date_now s;
          s2 = s1\<lparr>messageHistory := messageHistory s1 @
                 [\<lparr>entry_timestamp = ts,
                   entry_message = ''Ping from '' @ client,
                   entry_userId = userId (objects s1 ! session)\<rparr>]\<rparr>
      in if length (messageHistory s2) > 10000
         then s2\<lparr>messageHistory := slice_last 5000 (messageHistory s2)\<rparr>
         else s2)"
| "run_callback (GlobalHandler client) s = client_emit client global_broadcast s"
| "run_callback (UpdateIntervalBody data_userId client) s =
     (let ((uid, updates), s1) = generateFakeUpdates data_userId s
      in client_emit client (user_updates uid updates) s1)"

text \<open>The event loop fires the interval with handle \<open>t\<close>, if it is still set.\<close>
definition interval_fires :: "timeout \<Rightarrow> state \<Rightarrow> state" where
  "interval_fires t s =
     (case map_of (activeTimers s) t of None \<Rightarrow> s | Some cb \<Rightarrow> run_callback cb s)"

text \<open>The socket \<open>client\<close> receives \<^verbatim>\<open>pong\<close>: its listeners for that event run in order.\<close>
definition pong_received :: "socket_id \<Rightarrow> state \<Rightarrow> state" where
  "pong_received client s =
     fold run_callback
       (map (\<lambda>(c, ev, cb). cb)
          (filter (\<lambda>(c, ev, cb). c = client \<and> ev = ''pong'') (socketListeners s))) s"

subsection \<open>Sequences of operations\<close>

datatype operation =
    Connect socket_id "string option"
  | Disconnect socket_id
  | SubscribeUpdates socket_id string
  | HeavyComputation socket_id "int option"
  | GetMemoryStats socket_id MemoryUsage
  | ForceGC socket_id "(MemoryUsage \<times> MemoryUsage) option"
  | IntervalFires timeout
  | PongReceived socket_id

fun step :: "operation \<Rightarrow> state \<Rightarrow> state" where
  "step (Connect client auth) s = handleConnection client auth s"
| "step (Disconnect client) s = handleDisconnect client s"
| "step (SubscribeUpdates client uid) s = snd (handleSubscribeUpdates uid client s)"
| "step (HeavyComputation client iterations) s = snd (handleHeavyComputation iterations client s)"
| "step (GetMemoryStats client memUsage) s = snd (handleGetMemoryStats memUsage client s)"
| "step (ForceGC client gc) s = handleForceGC gc client s"
| "step (IntervalFires t) s = interval_fires t s"
| "step (PongReceived client) s = pong_received client s"

text \<open>The operations of a list, first to last.\<close>
definition run :: "operation list \<Rightarrow> state \<Rightarrow> state" where
  "run ops s = fold step ops s"

subsection \<open>Inputs of the examples\<close>

text \<open>A clock that runs backwards, as a wall clock may when it is set back, and an entry to
  fill a history with.\<close>
definition backwards_clock :: "nat \<Rightarrow> int" where
  "backwards_clock k = - int k"

definition some_entry :: HistoryEntry where
  "some_entry = \<lparr>entry_timestamp = 0, entry_message = ''Ping from c0'', entry_userId = ''u0''\<rparr>"

section \<open>Properties\<close>

subsection \<open>What \<^verbatim>\<open>heavy_computation\<close> does\<close>

lemma decimal_digit: "n < 10 \<Longrightarrow> decimal n = [''0123456789'' ! n]"
  by (subst decimal.simps) simp

lemma run_results_upt:
  "run_results client [m ..< n] s =
     s\<lparr>emitted := emitted s @
          map (\<lambda>i. (client, computation_result i (100 * 1024 + length (''iteration_'' @ decimal i))
                              (clock s (clockReads s + (i - m))))) [m ..< n],
       clockReads := clockReads s + (n - m)\<rparr>"
proof (induction "n - m" arbitrary: m s)
  case 0
  then show ?case by simp
next
  case (Suc k)
  then have lt: "m < n" and k: "k = n - Suc m" by linarith+
  have cong: "map (\<lambda>i. (client, computation_result i (100 * 1024 + length (''iteration_'' @ decimal i))
                 (clock s (Suc (clockReads s) + (i - Suc m))))) [Suc m ..< n]
            = map (\<lambda>i. (client, computation_result i (100 * 1024 + length (''iteration_'' @ decimal i))
                 (clock s (clockReads s + (i - m))))) [Suc m ..< n]"
  proof (rule map_cong)
    fix i assume "i \<in> set [Suc m ..< n]"
    then have "Suc (clockReads s) + (i - Suc m) = clockReads s + (i - m)" by auto
    then show "(client, computation_result i (100 * 1024 + length (''iteration_'' @ decimal i))
                 (clock s (Suc (clockReads s) + (i - Suc m))))
             = (client, computation_result i (100 * 1024 + length (''iteration_'' @ decimal i))
                 (clock s (clockReads s + (i - m))))"
      by (simp only:)
  qed (rule refl)
  show ?case
    using lt cong
    by (simp add: upt_conv_Cons Suc.hyps(1)[OF k] Date_now_def client_emit_def Suc_diff_Suc del: upt_Suc)
qed

lemma heavy_Some:
  assumes "n \<le> int max_array_length"
  shows "handleHeavyComputation (Some n) client s =
     (let k = nat (if n = 0 then 100 else n);
          s2 = s\<lparr>emitted := emitted s @
                 map (\<lambda>i. (client, computation_result i
                                    (100 * 1024 + length (''iteration_'' @ decimal i))
                                    (clock s (clockReads s + i)))) [0 ..< k],
               clockReads := Suc (clockReads s + k)\<rparr>
      in if length (messageHistory s) < max_array_length
         then (Inr (Processed k),
               s2\<lparr>messageHistory := messageHistory s @
                    [\<lparr>entry_timestamp = clock s (clockReads s + k),
                      entry_message = ''Heavy computation completed: '' @ decimal k @ '' operations'',
                      entry_userId = number_toString n\<rparr>]\<rparr>)
         else (Inl RangeError, s2))"
proof -
  have "\<not> int max_array_length < (if n = 0 then 100 else n)"
    using assms by (simp add: max_array_length_def)
  then show ?thesis
    by (simp add: handleHeavyComputation_def run_results_upt Date_now_def Let_def)
qed

lemma heavy_too_many:
  assumes "int max_array_length < n"
  shows "handleHeavyComputation (Some n) client s = (Inl RangeError, s)"
  using assms by (auto simp: handleHeavyComputation_def Let_def max_array_length_def)

lemma heavy_None:
  "handleHeavyComputation None client s =
      (Inl TypeError,
       s\<lparr>emitted := emitted s @
            map (\<lambda>i. (client, computation_result i (100 * 1024 + length (''iteration_'' @ decimal i))
                                (clock s (clockReads s + i)))) [0 ..< 100],
         clockReads := Suc (clockReads s + 100)\<rparr>)"
  by (simp add: handleHeavyComputation_def run_results_upt Date_now_def Let_def
        max_array_length_def)

lemma sorted_clock_readings:
  assumes "\<forall>i j. i \<le> j \<longrightarrow> clk i \<le> (clk j :: int)"
  shows "sorted (map (\<lambda>i. clk (r + i)) [0 ..< k])"
proof -
  have "sorted_wrt (\<lambda>i j. clk (r + i) \<le> clk (r + j)) [0 ..< k]"
    by (rule sorted_wrt_mono_rel[where P = "(<)"]) (use assms in auto)
  then show ?thesis by (simp add: sorted_map)
qed

text \<open>
  C7, as amended. For every integer \<open>n\<close> from 1 to \<^verbatim>\<open>2^32 - 1\<close>, \<^verbatim>\<open>heavy_computation\<close> with
  \<^verbatim>\<open>{iterations: n}\<close> emits, after what was emitted before, exactly \<open>n\<close>
  \<^verbatim>\<open>computation_result\<close> events to the calling client, with the iteration values
  \<open>0, \<dots>, n - 1\<close> in this order; the timestamp of the \<open>i\<close>-th is the \<open>i\<close>-th clock reading
  of the call, so the timestamps are non-decreasing whenever the clock is. When the history
  has room for one more entry, the call returns \<^verbatim>\<open>{processed: n}\<close>.
\<close>
theorem heavy_computation_delivers_n:
  assumes "1 \<le> n" and "n \<le> 4294967295"
  shows "emitted (snd (handleHeavyComputation (Some n) client s)) =
           emitted s @
           map (\<lambda>i. (client, computation_result i (100 * 1024 + length (''iteration_'' @ decimal i))
                               (clock s (clockReads s + i)))) [0 ..< nat n] \<and>
         (length (messageHistory s) < 4294967295 \<longrightarrow>
            fst (handleHeavyComputation (Some n) client s) = Inr (Processed (nat n))) \<and>
         ((\<forall>i j. i \<le> j \<longrightarrow> clock s i \<le> clock s j) \<longrightarrow>
            sorted (map (result_timestamp \<circ> snd)
              (drop (length (emitted s)) (emitted (snd (handleHeavyComputation (Some n) client s))))))"
proof -
  let ?evs = "map (\<lambda>i. (client, computation_result i (100 * 1024 + length (''iteration_'' @ decimal i))
                               (clock s (clockReads s + i)))) [0 ..< nat n]"
  have n0: "n \<noteq> 0" using assms by simp
  have le: "n \<le> int max_array_length" using assms by (simp add: max_array_length_def)
  have reply: "fst (handleHeavyComputation (Some n) client s) = Inr (Processed (nat n))"
    if "length (messageHistory s) < 4294967295"
    using n0 that by (simp add: heavy_Some[OF le] Let_def max_array_length_def)
  have evs: "emitted (snd (handleHeavyComputation (Some n) client s)) = emitted s @ ?evs"
    using n0 by (simp add: heavy_Some[OF le] Let_def)
  have ts: "map (result_timestamp \<circ> snd) ?evs = map (\<lambda>i. clock s (clockReads s + i)) [0 ..< nat n]"
    by simp
  have "sorted (map (result_timestamp \<circ> snd)
          (drop (length (emitted s)) (emitted (snd (handleHeavyComputation (Some n) client s)))))"
    if "\<forall>i j. i \<le> j \<longrightarrow> clock s i \<le> clock s j"
    unfolding evs using sorted_clock_readings[OF that, of "clockReads s" "nat n"]
    by (simp only: append_eq_conv_conj drop_append length_map diff_self_eq_0 drop_0 drop_all order_refl append_Nil ts)
  with reply evs show ?thesis by blast
qed

text \<open>Three iterations on a fresh gateway whose clock counts its readings.\<close>
theorem heavy_computation_delivers_n_witness:
  "fst (handleHeavyComputation (Some 3) ''c1'' (constructor int)) = Inr (Processed 3) \<and>
   map (iteration \<circ> snd) (emitted (snd (handleHeavyComputation (Some 3) ''c1'' (constructor int))))
     = [0, 1, 2] \<and>
   map fst (emitted (snd (handleHeavyComputation (Some 3) ''c1'' (constructor int))))
     = [''c1'', ''c1'', ''c1''] \<and>
   map (result_timestamp \<circ> snd)
     (emitted (snd (handleHeavyComputation (Some 3) ''c1'' (constructor int)))) = [0, 1, 2] \<and>
   sorted (map (result_timestamp \<circ> snd)
     (emitted (snd (handleHeavyComputation (Some 3) ''c1'' (constructor int)))))"
  using heavy_computation_delivers_n[of 3 "''c1''" "constructor int"]
  by (simp add: constructor_def upt_rec)

text \<open>
  C7 as stated fails in four ways. At \<open>n = 0\<close> \<^verbatim>\<open>data.iterations || 100\<close> takes the default:
  100 events are emitted and \<^verbatim>\<open>{processed: 100}\<close> is returned. At \<^verbatim>\<open>n = 2^32\<close> the push into
  \<^verbatim>\<open>results\<close> throws a RangeError: nothing is emitted, nothing returned. With a clock that
  is set back between two readings the timestamps decrease. With a history of the greatest
  array length the final push throws, and \<^verbatim>\<open>{processed: 1}\<close> is not returned.
\<close>
theorem heavy_computation_as_stated_counterexample:
  "fst (handleHeavyComputation (Some 0) ''c1'' (constructor int)) = Inr (Processed 100) \<and>
   length (emitted (snd (handleHeavyComputation (Some 0) ''c1'' (constructor int)))) = 100 \<and>
   handleHeavyComputation (Some 4294967296) ''c1'' (constructor int)
     = (Inl RangeError, constructor int) \<and>
   emitted (constructor int) = [] \<and>
   map (result_timestamp \<circ> snd)
     (emitted (snd (handleHeavyComputation (Some 2) ''c1'' (constructor backwards_clock))))
     = [0, - 1] \<and>
   fst (handleHeavyComputation (Some 1) ''c1''
          ((constructor int)\<lparr>messageHistory := replicate 4294967295 some_entry\<rparr>))
     = Inl RangeError"
proof -
  have le: "n \<le> int max_array_length" if "n \<le> 2" for n :: int
    using that by (simp add: max_array_length_def)
  have zero: "fst (handleHeavyComputation (Some 0) ''c1'' (constructor int)) = Inr (Processed 100) \<and>
      length (emitted (snd (handleHeavyComputation (Some 0) ''c1'' (constructor int)))) = 100"
    by (simp add: heavy_Some[OF le] Let_def constructor_def max_array_length_def)
  have big: "handleHeavyComputation (Some 4294967296) ''c1'' (constructor int)
      = (Inl RangeError, constructor int)"
    by (rule heavy_too_many) (simp add: max_array_length_def)
  have backwards: "map (result_timestamp \<circ> snd)
      (emitted (snd (handleHeavyComputation (Some 2) ''c1'' (constructor backwards_clock))))
      = [0, - 1]"
    by (simp add: heavy_Some[OF le] Let_def constructor_def max_array_length_def
          backwards_clock_def upt_rec)
  have full: "fst (handleHeavyComputation (Some 1) ''c1''
          ((constructor int)\<lparr>messageHistory := replicate 4294967295 some_entry\<rparr>))
      = Inl RangeError"
    by (simp add: heavy_Some[OF le] Let_def max_array_length_def)
  from zero big backwards full show ?thesis by (simp add: constructor_def)
qed

text \<open>
  C10. With the \<^verbatim>\<open>iterations\<close> field absent the 100 default units are run and their 100
  events emitted, but the handler then throws a TypeError at
  \<^verbatim>\<open>data.iterations.toString()\<close>: it returns no \<^verbatim>\<open>{processed: 100}\<close> and records nothing
  in the history.
\<close>
theorem heavy_computation_absent_iterations:
  "fst (handleHeavyComputation None ''c1'' (constructor int)) = Inl TypeError \<and>
   length (emitted (snd (handleHeavyComputation None ''c1'' (constructor int)))) = 100 \<and>
   messageHistory (snd (handleHeavyComputation None ''c1'' (constructor int))) = []"
  by (simp add: heavy_None constructor_def)

subsection \<open>Operations of a connection without a session\<close>

text \<open>
  C8, as amended. For a connection with no session in the registry,
  \<^verbatim>\<open>subscribe_updates\<close> returns \<^verbatim>\<open>undefined\<close> and leaves the whole state as it was (no timer,
  no event, no history entry). \<^verbatim>\<open>heavy_computation\<close> never looks the session up: with an
  integer \<^verbatim>\<open>iterations\<close> \<open>n\<close> of at most \<^verbatim>\<open>2^32 - 1\<close> it emits its \<^verbatim>\<open>computation_result\<close>
  events to the caller all the same, for the iterations \<open>0, \<dots>, k - 1\<close> where \<open>k\<close> is \<open>n\<close>,
  or 100 when \<open>n = 0\<close>, or 0 when \<open>n < 0\<close>; and when the history has room for one more
  entry it appends one and replies \<^verbatim>\<open>{processed: k}\<close>.
\<close>
theorem no_session_operations:
  assumes "map_of (userSessions s) client = None"
  shows "handleSubscribeUpdates uid client s = (None, s) \<and>
         (n \<le> 4294967295 \<longrightarrow>
            emitted (snd (handleHeavyComputation (Some n) client s)) =
              emitted s @
              map (\<lambda>i. (client, computation_result i (100 * 1024 + length (''iteration_'' @ decimal i))
                               (clock s (clockReads s + i))))
                [0 ..< nat (if n = 0 then 100 else n)]) \<and>
         (n \<le> 4294967295 \<and> length (messageHistory s) < 4294967295 \<longrightarrow>
            fst (handleHeavyComputation (Some n) client s)
              = Inr (Processed (nat (if n = 0 then 100 else n))) \<and>
            take (length (messageHistory s))
              (messageHistory (snd (handleHeavyComputation (Some n) client s)))
              = messageHistory s \<and>
            length (messageHistory (snd (handleHeavyComputation (Some n) client s)))
              = Suc (length (messageHistory s)))"
proof -
  have sub: "handleSubscribeUpdates uid client s = (None, s)"
    using assms by (simp add: handleSubscribeUpdates_def)
  have le: "n \<le> int max_array_length" if "n \<le> 4294967295"
    using that by (simp add: max_array_length_def)
  have evs: "emitted (snd (handleHeavyComputation (Some n) client s)) =
              emitted s @
              map (\<lambda>i. (client, computation_result i (100 * 1024 + length (''iteration_'' @ decimal i))
                               (clock s (clockReads s + i))))
                [0 ..< nat (if n = 0 then 100 else n)]"
    if "n \<le> 4294967295"
    by (simp add: heavy_Some[OF le[OF that]] Let_def)
  have reply: "fst (handleHeavyComputation (Some n) client s)
              = Inr (Processed (nat (if n = 0 then 100 else n))) \<and>
            take (length (messageHistory s))
              (messageHistory (snd (handleHeavyComputation (Some n) client s)))
              = messageHistory s \<and>
            length (messageHistory (snd (handleHeavyComputation (Some n) client s)))
              = Suc (length (messageHistory s))"
    if "n \<le> 4294967295" and "length (messageHistory s) < 4294967295"
    using that(2) by (simp add: heavy_Some[OF le[OF that(1)]] Let_def max_array_length_def)
  from sub evs reply show ?thesis by blast
qed

text \<open>A fresh gateway has no session for \<^verbatim>\<open>c1\<close>.\<close>
theorem no_session_operations_witness:
  "map_of (userSessions (constructor int)) ''c1'' = None \<and>
   handleSubscribeUpdates ''u1'' ''c1'' (constructor int) = (None, constructor int) \<and>
   emitted (snd (handleHeavyComputation (Some 2) ''c1'' (constructor int)))
     = [(''c1'', computation_result 0 102411 0), (''c1'', computation_result 1 102411 1)] \<and>
   fst (handleHeavyComputation (Some 2) ''c1'' (constructor int)) = Inr (Processed 2) \<and>
   length (messageHistory (snd (handleHeavyComputation (Some 2) ''c1'' (constructor int)))) = 1"
proof -
  have h: "map_of (userSessions (constructor int)) ''c1'' = None"
    by (simp add: constructor_def)
  show ?thesis
    using h no_session_operations[OF h, of "''u1''" 2]
    by (simp add: constructor_def upt_rec decimal_digit)
qed

text \<open>
  C8 as stated fails for \<^verbatim>\<open>heavy_computation\<close>: on a fresh gateway, where \<^verbatim>\<open>c1\<close> has no
  session, the call emits an event to \<^verbatim>\<open>c1\<close> and appends to the history.
\<close>
theorem heavy_computation_without_session_counterexample:
  "map_of (userSessions (constructor int)) ''c1'' = None \<and>
   emitted (snd (handleHeavyComputation (Some 1) ''c1'' (constructor int)))
     = [(''c1'', computation_result 0 102411 0)] \<and>
   length (messageHistory (snd (handleHeavyComputation (Some 1) ''c1'' (constructor int)))) = 1"
proof -
  have le: "(1::int) \<le> int max_array_length" by (simp add: max_array_length_def)
  show ?thesis
    by (simp add: heavy_Some[OF le] Let_def constructor_def decimal_digit max_array_length_def)
qed

subsection \<open>The session map only grows\<close>

text \<open>Only \<^verbatim>\<open>handleConnection\<close> writes \<^verbatim>\<open>userSessions\<close>, and it writes with \<^verbatim>\<open>set\<close>.\<close>

lemma length_update_ge: "length al \<le> length (AList.update k v al)"
  by (induction al) auto

lemma userSessions_handleConnection:
  "userSessions (handleConnection client auth s) =
     AList.update client (length (objects s)) (userSessions s)"
  by (simp add: handleConnection_def anonymous_def Date_now_def setInterval_def client_on_def
        modify_session_def Let_def split: option.split)

lemma userSessions_handleDisconnect:
  "userSessions (handleDisconnect client s) = userSessions s"
  by (simp add: handleDisconnect_def clearInterval_def split: option.split list.split)

lemma userSessions_handleSubscribeUpdates:
  "userSessions (snd (handleSubscribeUpdates uid client s)) = userSessions s"
  by (simp add: handleSubscribeUpdates_def setInterval_def split: option.split)

lemma userSessions_handleHeavyComputation:
  "userSessions (snd (handleHeavyComputation iterations client s)) = userSessions s"
  by (simp add: handleHeavyComputation_def run_results_upt Date_now_def Let_def
        split: option.split)

lemma userSessions_handleGetMemoryStats:
  "userSessions (snd (handleGetMemoryStats memUsage client s)) = userSessions s"
  by (simp add: handleGetMemoryStats_def client_emit_def Let_def)

lemma userSessions_handleForceGC:
  "userSessions (handleForceGC gc client s) = userSessions s"
  by (simp add: handleForceGC_def client_emit_def split: option.split)

text \<open>\<^verbatim>\<open>generateFakeUpdates\<close> only reads the clock, once for each of its 50 items, and puts
  the session it found into every item.\<close>

lemma snd_make_updates:
  "snd (make_updates uid session is s) = s\<lparr>clockReads := clockReads s + length is\<rparr>"
  by (induction "is" arbitrary: s) (simp_all add: Date_now_def case_prod_beta)

lemma sessionData_make_updates:
  "map sessionData (fst (make_updates uid session is s)) = replicate (length is) session"
  by (induction "is" arbitrary: s) (simp_all add: Date_now_def case_prod_beta)

lemma snd_generateFakeUpdates:
  "snd (generateFakeUpdates uid s) = s\<lparr>clockReads := clockReads s + 50\<rparr>"
  by (simp add: generateFakeUpdates_def Let_def case_prod_beta snd_make_updates)

lemma userSessions_run_callback:
  "userSessions (run_callback cb s) = userSessions s"
  by (cases cb)
     (simp_all add: performHeavyOperation_def Date_now_def client_emit_def slice_last_def
        Let_def case_prod_beta snd_generateFakeUpdates)

lemma userSessions_interval_fires:
  "userSessions (interval_fires t s) = userSessions s"
  by (simp add: interval_fires_def userSessions_run_callback split: option.split)

lemma userSessions_fold_run_callback:
  "userSessions (fold run_callback cbs s) = userSessions s"
  by (induction cbs arbitrary: s) (simp_all add: userSessions_run_callback)

lemma userSessions_pong_received:
  "userSessions (pong_received client s) = userSessions s"
  by (simp add: pong_received_def userSessions_fold_run_callback)

lemma userSessions_step:
  "fst ` set (userSessions s) \<subseteq> fst ` set (userSessions (step op s)) \<and>
   length (userSessions s) \<le> length (userSessions (step op s))"
  by (cases op)
     (auto simp: userSessions_handleConnection dom_update length_update_ge
        userSessions_handleDisconnect userSessions_handleSubscribeUpdates
        userSessions_handleHeavyComputation userSessions_handleGetMemoryStats
        userSessions_handleForceGC userSessions_interval_fires userSessions_pong_received)

text \<open>
  C9. Over any sequence of gateway operations (connect, disconnect, \<^verbatim>\<open>subscribe_updates\<close>,
  \<^verbatim>\<open>heavy_computation\<close>, \<^verbatim>\<open>get_memory_stats\<close>, \<^verbatim>\<open>force_gc\<close>, and also a timer firing or a pong
  arriving), every key of \<^verbatim>\<open>userSessions\<close> stays a key, the size of the map does not
  decrease, and so the \<^verbatim>\<open>activeSessions\<close> figure that \<^verbatim>\<open>get_memory_stats\<close> reports after the
  sequence is at least the one it reports before.
\<close>
theorem userSessions_never_shrinks:
  "fst ` set (userSessions s) \<subseteq> fst ` set (userSessions (run ops s)) \<and>
   length (userSessions s) \<le> length (userSessions (run ops s)) \<and>
   activeSessions (fst (handleGetMemoryStats m client s))
     \<le> activeSessions (fst (handleGetMemoryStats m' client' (run ops s)))"
proof -
  have "fst ` set (userSessions s) \<subseteq> fst ` set (userSessions (fold step ops s)) \<and>
        length (userSessions s) \<le> length (userSessions (fold step ops s))"
  proof (induction ops arbitrary: s)
    case Nil
    show ?case by simp
  next
    case (Cons op ops)
    from userSessions_step[of s op] Cons.IH[of "step op s"]
    show ?case by (simp, blast intro: order_trans)
  qed
  then show ?thesis
    by (simp add: run_def handleGetMemoryStats_def Let_def)
qed

subsection \<open>Connect, then disconnect\<close>

text \<open>The state after the first client, \<^verbatim>\<open>c1\<close> with user id \<^verbatim>\<open>u1\<close>, has connected to a fresh
  gateway whose clock counts its readings.\<close>

lemma connected_state:
  "handleConnection ''c1'' (Some ''u1'') (constructor int) =
     \<lparr>userSessions = [(''c1'', 0)],
      globalEventHandlers = [GlobalHandler ''c1''],
      messageHistory = [],
      globalTimer = 0,
      objects = [\<lparr>userId = ''u1'', socketId = ''c1'',
                  data = \<lparr>byteLength = 1048576, fillByte = CHR ''x''\<rparr>,
                  timers = [1], intervals = [],
                  listeners = [(''pong'', HeartbeatCallback ''c1'')]\<rparr>],
      activeTimers = [(0, GlobalTimerBody), (1, ConnectionTimerBody ''c1'' 0)],
      timersCreated = 2,
      socketListeners = [(''c1'', ''pong'', HeartbeatCallback ''c1'')],
      emitted = [], cleared = [], clock = int, clockReads = 0\<rparr>"
  by (simp add: handleConnection_def constructor_def setInterval_def client_on_def
        modify_session_def Let_def)

text \<open>
  C1. After \<^verbatim>\<open>c1\<close> connects and disconnects, its connection timer is cleared (only the
  constructor's timer is left), but the session is still found under \<^verbatim>\<open>c1\<close>, its global
  handler is still in \<^verbatim>\<open>globalEventHandlers\<close> and its \<^verbatim>\<open>pong\<close> listener is still registered.
\<close>
theorem disconnect_leaves_session_registered:
  "map_of (userSessions (handleDisconnect ''c1''
       (handleConnection ''c1'' (Some ''u1'') (constructor int)))) ''c1'' = Some 0 \<and>
   globalEventHandlers (handleDisconnect ''c1''
       (handleConnection ''c1'' (Some ''u1'') (constructor int))) = [GlobalHandler ''c1''] \<and>
   socketListeners (handleDisconnect ''c1''
       (handleConnection ''c1'' (Some ''u1'') (constructor int)))
     = [(''c1'', ''pong'', HeartbeatCallback ''c1'')] \<and>
   activeTimers (handleDisconnect ''c1''
       (handleConnection ''c1'' (Some ''u1'') (constructor int))) = [(0, GlobalTimerBody)]"
  by (simp add: connected_state handleDisconnect_def clearInterval_def)

subsection \<open>The interval of \<^verbatim>\<open>subscribe_updates\<close>\<close>

lemma generateFakeUpdates_fst:
  "fst (fst (generateFakeUpdates uid s)) = uid"
  "length (snd (fst (generateFakeUpdates uid s))) = 50"
  using arg_cong[OF sessionData_make_updates, of length uid _ "[0 ..< 50]" s]
  by (simp_all add: generateFakeUpdates_def Let_def case_prod_beta)

lemma subscribed_state:
  "handleSubscribeUpdates ''u1'' ''c1'' (handleConnection ''c1'' (Some ''u1'') (constructor int)) =
     (Some (Subscribed ''u1''),
      (handleConnection ''c1'' (Some ''u1'') (constructor int))
        \<lparr>activeTimers := [(0, GlobalTimerBody), (1, ConnectionTimerBody ''c1'' 0),
                          (2, UpdateIntervalBody ''u1'' ''c1'')],
         timersCreated := 3\<rparr>)"
  by (simp add: connected_state handleSubscribeUpdates_def setInterval_def)

text \<open>
  C2. After \<^verbatim>\<open>c1\<close> connects and subscribes, the session's \<^verbatim>\<open>intervals\<close> is empty and its
  \<^verbatim>\<open>timers\<close> holds the connection timer only: the update interval (handle 2) is in no
  session. After the disconnect it is still set, and when it fires it emits
  \<^verbatim>\<open>user_updates\<close>, with 50 items for \<^verbatim>\<open>u1\<close>, to \<^verbatim>\<open>c1\<close>.
\<close>
theorem subscribe_updates_timer_not_recorded:
  "intervals (objects (snd (handleSubscribeUpdates ''u1'' ''c1''
       (handleConnection ''c1'' (Some ''u1'') (constructor int)))) ! 0) = [] \<and>
   timers (objects (snd (handleSubscribeUpdates ''u1'' ''c1''
       (handleConnection ''c1'' (Some ''u1'') (constructor int)))) ! 0) = [1] \<and>
   activeTimers (handleDisconnect ''c1'' (snd (handleSubscribeUpdates ''u1'' ''c1''
       (handleConnection ''c1'' (Some ''u1'') (constructor int)))))
     = [(0, GlobalTimerBody), (2, UpdateIntervalBody ''u1'' ''c1'')] \<and>
   map (\<lambda>(c, e). (c, case e of user_updates u items \<Rightarrow> Some (u, length items) | _ \<Rightarrow> None))
     (emitted (interval_fires 2 (handleDisconnect ''c1'' (snd (handleSubscribeUpdates ''u1'' ''c1''
       (handleConnection ''c1'' (Some ''u1'') (constructor int)))))))
     = [(''c1'', Some (''u1'', 50))]"
  unfolding subscribed_state snd_conv
  by (simp add: connected_state handleDisconnect_def clearInterval_def
        interval_fires_def client_emit_def case_prod_beta Let_def snd_generateFakeUpdates
        generateFakeUpdates_fst)

subsection \<open>Disconnecting twice\<close>

text \<open>
  C5. The first disconnect of \<^verbatim>\<open>c1\<close> leaves the session in the map, so the second one
  finds it again and calls \<^verbatim>\<open>clearInterval\<close> on the same handle a second time. Apart from
  the trace of that call, the second disconnect changes nothing.
\<close>
theorem second_disconnect_cancels_again:
  "map_of (userSessions (handleDisconnect ''c1''
       (handleConnection ''c1'' (Some ''u1'') (constructor int)))) ''c1'' = Some 0 \<and>
   cleared (handleDisconnect ''c1''
       (handleConnection ''c1'' (Some ''u1'') (constructor int))) = [1] \<and>
   cleared (handleDisconnect ''c1'' (handleDisconnect ''c1''
       (handleConnection ''c1'' (Some ''u1'') (constructor int)))) = [1, 1] \<and>
   (handleDisconnect ''c1'' (handleDisconnect ''c1''
       (handleConnection ''c1'' (Some ''u1'') (constructor int))))\<lparr>cleared := []\<rparr>
     = (handleDisconnect ''c1''
       (handleConnection ''c1'' (Some ''u1'') (constructor int)))\<lparr>cleared := []\<rparr>"
  by (simp add: connected_state handleDisconnect_def clearInterval_def)

subsection \<open>The update payload\<close>

text \<open>
  C6. With \<^verbatim>\<open>c1\<close> connected as \<^verbatim>\<open>u1\<close>, each of the 50 items that
  \<^verbatim>\<open>generateFakeUpdates\<close> builds for \<^verbatim>\<open>u1\<close> has as its \<^verbatim>\<open>sessionData\<close> the address of the
  session object that the registry holds under \<^verbatim>\<open>c1\<close>: the live object, not a copy of
  its values.
\<close>
theorem update_payload_embeds_session:
  "map_of (userSessions (handleConnection ''c1'' (Some ''u1'') (constructor int))) ''c1'' = Some 0 \<and>
   map sessionData (snd (fst (generateFakeUpdates ''u1''
       (handleConnection ''c1'' (Some ''u1'') (constructor int)))))
     = replicate 50 (Some 0)"
  by (simp add: generateFakeUpdates_def Let_def case_prod_beta sessionData_make_updates connected_state)

subsection \<open>The length of the history\<close>

lemma run_replicate_Suc: "run (replicate (Suc k) op) s = run (replicate k op) (step op s)"
  by (simp add: run_def)

lemma heavy_runs:
  assumes "n \<le> int max_array_length"
      and "length (messageHistory s) + k \<le> max_array_length"
  shows "length (messageHistory (run (replicate k (HeavyComputation c (Some n))) s))
           = length (messageHistory s) + k \<and>
         activeTimers (run (replicate k (HeavyComputation c (Some n))) s) = activeTimers s \<and>
         objects (run (replicate k (HeavyComputation c (Some n))) s) = objects s"
  using assms(2)
proof (induction k arbitrary: s)
  case 0
  show ?case by (simp add: run_def)
next
  case (Suc k)
  let ?s = "step (HeavyComputation c (Some n)) s"
  have lt: "length (messageHistory s) < max_array_length" using Suc.prems by simp
  have one: "length (messageHistory ?s) = Suc (length (messageHistory s)) \<and>
             activeTimers ?s = activeTimers s \<and> objects ?s = objects s"
    using lt by (simp add: heavy_Some[OF assms(1)] Let_def)
  then have "length (messageHistory ?s) + k \<le> max_array_length"
    using Suc.prems by simp
  from Suc.IH[OF this] one show ?case
    unfolding run_replicate_Suc by simp
qed

lemma connection_timer_tick:
  "run_callback (ConnectionTimerBody c r) s =
     (if length (messageHistory s) < 10000
      then s\<lparr>clockReads := Suc (clockReads s),
             messageHistory := messageHistory s @
               [\<lparr>entry_timestamp = clock s (clockReads s),
                 entry_message = ''Ping from '' @ c,
                 entry_userId = userId (objects s ! r)\<rparr>]\<rparr>
      else s\<lparr>clockReads := Suc (clockReads s),
             messageHistory := slice_last 5000 (messageHistory s @
               [\<lparr>entry_timestamp = clock s (clockReads s),
                 entry_message = ''Ping from '' @ c,
                 entry_userId = userId (objects s ! r)\<rparr>])\<rparr>)"
  by (simp add: Date_now_def Let_def)

lemma run_replicate_snoc: "run (replicate (Suc k) op) s = step op (run (replicate k op) s)"
  by (simp add: run_def replicate_append_same[symmetric] del: replicate_Suc)

lemma connection_timer_ticks:
  assumes "map_of (activeTimers s) t = Some (ConnectionTimerBody c r)"
      and "length (messageHistory s) + k \<le> 10000"
  shows "length (messageHistory (run (replicate k (IntervalFires t)) s))
           = length (messageHistory s) + k \<and>
         activeTimers (run (replicate k (IntervalFires t)) s) = activeTimers s"
  using assms
proof (induction k arbitrary: s)
  case 0
  show ?case by (simp add: run_def)
next
  case (Suc k)
  let ?s = "step (IntervalFires t) s"
  have lt: "length (messageHistory s) < 10000" using Suc.prems(2) by simp
  have tm: "activeTimers ?s = activeTimers s"
    using Suc.prems(1) lt
    by (simp add: interval_fires_def connection_timer_tick del: run_callback.simps)
  have len: "length (messageHistory ?s) = Suc (length (messageHistory s))"
    using Suc.prems(1) lt
    by (simp add: interval_fires_def connection_timer_tick del: run_callback.simps)
  have "length (messageHistory ?s) + k \<le> 10000"
    using Suc.prems(2) len by simp
  with Suc.IH[of ?s] Suc.prems(1) tm len show ?case
    unfolding run_replicate_Suc by simp
qed

text \<open>
  C3. The history grows past 1000 entries: 1001 calls of \<^verbatim>\<open>heavy_computation\<close> leave 1001
  entries (that path never evicts), and so do 1001 ticks of a connection timer. The timer
  path lets the history reach 10000 entries and, on the next tick, cuts it to 5000.
\<close>
theorem messageHistory_exceeds_cap:
  "length (messageHistory (run (replicate 1001 (HeavyComputation ''c1'' (Some 1)))
      (constructor int))) = 1001 \<and>
   length (messageHistory (run (replicate 1001 (IntervalFires 1))
      (handleConnection ''c1'' (Some ''u1'') (constructor int)))) = 1001 \<and>
   length (messageHistory (run (replicate 10000 (IntervalFires 1))
      (handleConnection ''c1'' (Some ''u1'') (constructor int)))) = 10000 \<and>
   length (messageHistory (run (replicate 10001 (IntervalFires 1))
      (handleConnection ''c1'' (Some ''u1'') (constructor int)))) = 5000"
proof -
  let ?c = "handleConnection ''c1'' (Some ''u1'') (constructor int)"
  let ?full = "run (replicate 10000 (IntervalFires 1)) ?c"
  have tm: "map_of (activeTimers ?c) 1 = Some (ConnectionTimerBody ''c1'' 0)"
    by (simp add: connected_state)
  have h0: "length (messageHistory ?c) = 0"
    by (simp add: connected_state)
  have a: "length (messageHistory (run (replicate 1001 (HeavyComputation ''c1'' (Some 1)))
      (constructor int))) = 1001"
    using heavy_runs[of 1 "constructor int" 1001 "''c1''"]
    by (simp add: constructor_def max_array_length_def)
  have b: "length (messageHistory (run (replicate 1001 (IntervalFires 1)) ?c)) = 1001"
    using connection_timer_ticks[OF tm, of 1001] h0 by simp
  have c: "length (messageHistory ?full) = 10000" and t: "activeTimers ?full = activeTimers ?c"
    using connection_timer_ticks[OF tm, of 10000] h0 by simp_all
  have "run (replicate 10001 (IntervalFires 1)) ?c = step (IntervalFires 1) ?full"
    using run_replicate_snoc[of 10000 "IntervalFires 1" ?c] by simp
  then have d: "length (messageHistory (run (replicate 10001 (IntervalFires 1)) ?c)) = 5000"
    using c t tm
    by (simp add: interval_fires_def connection_timer_tick slice_last_def del: run_callback.simps)
  from a b c d show ?thesis by blast
qed

subsection \<open>Connecting an id that is already registered\<close>

lemma map_fst_update_present:
  "map_of al k = Some v \<Longrightarrow> map fst (AList.update k w al) = map fst al"
  by (induction al) (auto split: if_splits)

text \<open>
  C4, as amended. When \<^verbatim>\<open>handleConnection\<close> runs for a connection id that is already in
  the registry, it does not fail: it allocates a fresh session object and stores it under
  that id in place of the previous one, the keys of the map staying as they were. The
  objects allocated before, the previous session among them, are not written, and every
  timer that was set stays set; the fresh session's \<^verbatim>\<open>timers\<close> holds the new connection
  timer only.
\<close>
theorem handleConnection_replaces_session:
  assumes "map_of (userSessions s) client = Some old"
      and "old < length (objects s)"
  shows "map_of (userSessions (handleConnection client auth s)) client = Some (length (objects s)) \<and>
         map_of (userSessions (handleConnection client auth s)) client \<noteq> Some old \<and>
         map fst (userSessions (handleConnection client auth s)) = map fst (userSessions s) \<and>
         take (length (objects s)) (objects (handleConnection client auth s)) = objects s \<and>
         timers (objects (handleConnection client auth s) ! length (objects s)) = [timersCreated s] \<and>
         activeTimers (handleConnection client auth s)
           = activeTimers s @ [(timersCreated s, ConnectionTimerBody client (length (objects s)))]"
proof -
  have us: "userSessions (handleConnection client auth s)
              = AList.update client (length (objects s)) (userSessions s)"
    by (rule userSessions_handleConnection)
  have rest: "take (length (objects s)) (objects (handleConnection client auth s)) = objects s \<and>
         timers (objects (handleConnection client auth s) ! length (objects s)) = [timersCreated s] \<and>
         activeTimers (handleConnection client auth s)
           = activeTimers s @ [(timersCreated s, ConnectionTimerBody client (length (objects s)))]"
    by (simp add: handleConnection_def anonymous_def Date_now_def setInterval_def client_on_def
        modify_session_def Let_def split: option.split)
  show ?thesis
    using assms rest by (simp add: us update_conv' map_fst_update_present)
qed

text \<open>\<^verbatim>\<open>c1\<close> connects a second time, now as \<^verbatim>\<open>u2\<close>.\<close>
theorem handleConnection_replaces_session_witness:
  "map_of (userSessions (handleConnection ''c1'' (Some ''u1'') (constructor int))) ''c1'' = Some 0 \<and>
   0 < length (objects (handleConnection ''c1'' (Some ''u1'') (constructor int))) \<and>
   map_of (userSessions (handleConnection ''c1'' (Some ''u2'')
       (handleConnection ''c1'' (Some ''u1'') (constructor int)))) ''c1'' = Some 1 \<and>
   map fst (userSessions (handleConnection ''c1'' (Some ''u2'')
       (handleConnection ''c1'' (Some ''u1'') (constructor int)))) = [''c1''] \<and>
   activeTimers (handleConnection ''c1'' (Some ''u2'')
       (handleConnection ''c1'' (Some ''u1'') (constructor int)))
     = [(0, GlobalTimerBody), (1, ConnectionTimerBody ''c1'' 0), (2, ConnectionTimerBody ''c1'' 1)]"
proof -
  have h1: "map_of (userSessions (handleConnection ''c1'' (Some ''u1'') (constructor int))) ''c1''
              = Some 0"
    by (simp add: connected_state)
  have h2: "0 < length (objects (handleConnection ''c1'' (Some ''u1'') (constructor int)))"
    by (simp add: connected_state)
  show ?thesis
    using h1 h2 handleConnection_replaces_session[OF h1 h2, of "Some ''u2''"]
    by (simp add: connected_state)
qed

text \<open>
  C4 as stated fails: after the second connect of \<^verbatim>\<open>c1\<close> the registry holds another
  session object under \<^verbatim>\<open>c1\<close> (address 1 instead of 0, user id \<^verbatim>\<open>u2\<close>).
\<close>
theorem duplicate_connect_counterexample:
  "map_of (userSessions (handleConnection ''c1'' (Some ''u1'') (constructor int))) ''c1'' = Some 0 \<and>
   map_of (userSessions (handleConnection ''c1'' (Some ''u2'')
       (handleConnection ''c1'' (Some ''u1'') (constructor int)))) ''c1'' = Some 1 \<and>
   userId (objects (handleConnection ''c1'' (Some ''u2'')
       (handleConnection ''c1'' (Some ''u1'') (constructor int))) ! 1) = ''u2''"
  unfolding connected_state
  by (simp add: handleConnection_def setInterval_def client_on_def modify_session_def Let_def)

end
